theory Spec2Isabelle
  imports Complex_Main "HOL-Library.AList"
begin

section \<open>JavaScript values held by the form\<close>

text \<open>
  The form keeps, per field, what \<^verbatim>\<open>handleChange\<close> stored there: a number (the result of
  \<^verbatim>\<open>parseFloat\<close>, possibly \<^verbatim>\<open>NaN\<close>), \<^verbatim>\<open>null\<close>, or a string (the empty string \<^verbatim>\<open>''\<close>
  in the revisions of \<^verbatim>\<open>src/unnamed/part_000\<close>).

  A JavaScript number is modelled by its mathematical value: \<open>Fin q\<close> is the finite
  number with the exact decimal value \<open>q\<close>. A decimal too large for binary64 is
  \<^verbatim>\<open>Infinity\<close>, as in the code; rounding to binary64 below that and the sign of zero
  are not modelled. Strings are lists of 8-bit characters (ASCII text; a character
  outside ASCII is the sequence of its UTF-8 bytes).
\<close>

datatype jsnum = NaN | PosInfinity | NegInfinity | Fin rat

datatype jsval = JNull | JStr string | JNum jsnum

text \<open>
  A JavaScript object with string keys, as an association list in insertion order
  (the order of \<^verbatim>\<open>Object.entries\<close>). The spread \<^verbatim>\<open>{ ...o, [k]: v }\<close> is
  \<^const>\<open>AList.update\<close>: an existing key keeps its place, a new key goes last. (This is
  the order of keys that are not array indices; none of the field names is one.)
\<close>

type_synonym jsobject = "(string \<times> jsval) list"

section \<open>The built-in \<^verbatim>\<open>parseFloat\<close>\<close>

text \<open>
  \<^verbatim>\<open>parseFloat(string)\<close> of ECMAScript: strip leading white space, take the longest prefix
  that is a \<^verbatim>\<open>StrDecimalLiteral\<close> (an optional sign, then \<^verbatim>\<open>Infinity\<close> or decimal digits
  with an optional fraction and an optional exponent), and return its value; \<^verbatim>\<open>NaN\<close>
  when there is no such prefix.
\<close>

definition is_digit :: "char \<Rightarrow> bool" where
  "is_digit c = (c \<in> set ''0123456789'')"

definition digit_val :: "char \<Rightarrow> nat" where
  "digit_val c = of_char c - 48"

definition digits_val :: "string \<Rightarrow> nat" where
  "digits_val ds = foldl (\<lambda>a c. 10 * a + digit_val c) 0 ds"

text \<open>
  \<^verbatim>\<open>StrWhiteSpaceChar\<close>, each character as its UTF-8 bytes: U+0009 to U+000D, U+0020,
  U+00A0, U+1680, U+2000 to U+200A, U+2028, U+2029, U+202F, U+205F, U+3000 and U+FEFF.
\<close>

definition white_space :: "string list" where
  "white_space =
     [[CHR 0x09], [CHR 0x0A], [CHR 0x0B], [CHR 0x0C], [CHR 0x0D], [CHR 0x20],
      [CHR 0xC2, CHR 0xA0],
      [CHR 0xE1, CHR 0x9A, CHR 0x80],
      [CHR 0xE2, CHR 0x80, CHR 0x80], [CHR 0xE2, CHR 0x80, CHR 0x81],
      [CHR 0xE2, CHR 0x80, CHR 0x82], [CHR 0xE2, CHR 0x80, CHR 0x83],
      [CHR 0xE2, CHR 0x80, CHR 0x84], [CHR 0xE2, CHR 0x80, CHR 0x85],
      [CHR 0xE2, CHR 0x80, CHR 0x86], [CHR 0xE2, CHR 0x80, CHR 0x87],
      [CHR 0xE2, CHR 0x80, CHR 0x88], [CHR 0xE2, CHR 0x80, CHR 0x89],
      [CHR 0xE2, CHR 0x80, CHR 0x8A],
      [CHR 0xE2, CHR 0x80, CHR 0xA8], [CHR 0xE2, CHR 0x80, CHR 0xA9],
      [CHR 0xE2, CHR 0x80, CHR 0xAF],
      [CHR 0xE2, CHR 0x81, CHR 0x9F],
      [CHR 0xE3, CHR 0x80, CHR 0x80],
      [CHR 0xEF, CHR 0xBB, CHR 0xBF]]"

text \<open>The number of bytes of the white space character a string starts with, or 0.\<close>

definition space_length :: "string \<Rightarrow> nat" where
  "space_length s =
     (case find (\<lambda>p. take (length p) s = p) white_space of
        None \<Rightarrow> 0
      | Some p \<Rightarrow> length p)"

text \<open>
  \<^verbatim>\<open>TrimString(string, start)\<close>: \<open>trim_start n s\<close> drops \<open>n\<close> bytes that are left of the
  white space character being removed, and then all leading white space.
\<close>

fun trim_start :: "nat \<Rightarrow> string \<Rightarrow> string" where
  "trim_start n [] = []"
| "trim_start (Suc n) (c # s) = trim_start n s"
| "trim_start 0 (c # s) =
     (case space_length (c # s) of
        0 \<Rightarrow> c # s
      | Suc k \<Rightarrow> trim_start k s)"

definition signed_integer :: "int \<Rightarrow> string \<Rightarrow> int" where
  "signed_integer sg u =
     (let ds = takeWhile is_digit u in if ds = [] then 0 else sg * int (digits_val ds))"

text \<open>The exponent part, when one is there and complete; otherwise the exponent is 0.\<close>

definition exponent_part :: "string \<Rightarrow> int" where
  "exponent_part r =
     (case r of
        [] \<Rightarrow> 0
      | c # t \<Rightarrow>
          if c = CHR ''e'' \<or> c = CHR ''E'' then
            (case t of
               [] \<Rightarrow> 0
             | d # u \<Rightarrow>
                 if d = CHR ''+'' then signed_integer 1 u
                 else if d = CHR ''-'' then signed_integer (- 1) u
                 else signed_integer 1 t)
          else 0)"

definition pow10 :: "int \<Rightarrow> rat" where
  "pow10 e = (if 0 \<le> e then 10 ^ nat e else 1 / 10 ^ nat (- e))"

text \<open>
  A decimal value at or above \<open>2 ^ 1024 - 2 ^ 970\<close> is nearer to \<open>2 ^ 1024\<close> than to the
  largest finite binary64 number (or half way, which rounds to even): it is
  \<^verbatim>\<open>Infinity\<close>.
\<close>

definition finite_or_infinity :: "rat \<Rightarrow> jsnum" where
  "finite_or_infinity q = (if 2 ^ 1024 - 2 ^ 970 \<le> q then PosInfinity else Fin q)"

definition unsigned_literal :: "string \<Rightarrow> jsnum" where
  "unsigned_literal s =
     (if take 8 s = ''Infinity'' then PosInfinity
      else
        let ip = takeWhile is_digit s;
            r1 = dropWhile is_digit s;
            fp = (case r1 of [] \<Rightarrow> [] | c # t \<Rightarrow> if c = CHR ''.'' then takeWhile is_digit t else []);
            r2 = (case r1 of [] \<Rightarrow> [] | c # t \<Rightarrow> if c = CHR ''.'' then dropWhile is_digit t else r1)
        in if ip = [] \<and> fp = [] then NaN
           else finite_or_infinity
                  ((of_nat (digits_val ip) + of_nat (digits_val fp) / 10 ^ length fp)
                   * pow10 (exponent_part r2)))"

fun negate :: "jsnum \<Rightarrow> jsnum" where
  "negate NaN = NaN"
| "negate PosInfinity = NegInfinity"
| "negate NegInfinity = PosInfinity"
| "negate (Fin q) = Fin (- q)"

definition parseFloat :: "string \<Rightarrow> jsnum" where
  "parseFloat s =
     (case trim_start 0 s of
        [] \<Rightarrow> NaN
      | c # u \<Rightarrow>
          if c = CHR ''+'' then unsigned_literal u
          else if c = CHR ''-'' then negate (unsigned_literal u)
          else unsigned_literal (c # u))"

section \<open>The form: \<^verbatim>\<open>handleChange\<close>\<close>

text \<open>
  \<^verbatim>\<open>src/client/src/components/WaterQualityForm.jsx\<close>:
  \<^verbatim>\<open>setFormData({ ...formData, [name]: value ? parseFloat(value) : null })\<close>.
  A string is truthy when it is not empty.
\<close>

definition handleChange :: "string \<Rightarrow> string \<Rightarrow> jsobject \<Rightarrow> jsobject" where
  "handleChange name val formData =
     AList.update name (if val \<noteq> [] then JNum (parseFloat val) else JNull) formData"

text \<open>
  Both revisions in \<^verbatim>\<open>src/unnamed/part_000\<close>:
  \<^verbatim>\<open>setFormData({ ...formData, [name]: value === '' ? '' : parseFloat(value) })\<close>.
\<close>

definition handleChange_part_000 :: "string \<Rightarrow> string \<Rightarrow> jsobject \<Rightarrow> jsobject" where
  "handleChange_part_000 name val formData =
     AList.update name (if val = [] then JStr [] else JNum (parseFloat val)) formData"

section \<open>The evaluation service call: \<^verbatim>\<open>evaluateWaterQuality\<close>\<close>

text \<open>
  The body of a successful response, \<^verbatim>\<open>{ quality_score, report, graph }\<close>. The client
  never inspects it.
\<close>

record evaluation_result =
  quality_score :: rat
  report :: string
  graph :: string

text \<open>
  What \<^verbatim>\<open>axios.post\<close> throws. \<^verbatim>\<open>error.response\<close> is there when the server answered with
  a status outside 2xx, and \<^verbatim>\<open>error.response.data\<close> is the body of the answer, any value.
  The code reads \<^verbatim>\<open>error.response.data.detail\<close> with no check, uses it as the condition
  of \<^verbatim>\<open>||\<close> and hands it to \<^verbatim>\<open>new Error\<close>, which makes a string of it. The body and its
  \<^verbatim>\<open>detail\<close> are modelled by what these three steps observe.

  A \<^verbatim>\<open>detail\<close> is a string, or another value, given by its truthiness and by the string
  that \<^verbatim>\<open>new Error\<close> makes of it: \<^verbatim>\<open>{detail: [{msg: "x"}]}\<close> has
  \<open>DetailOther True ''[object Object]''\<close>, \<^verbatim>\<open>{detail: 0}\<close> has \<open>DetailOther False ''0''\<close>,
  \<^verbatim>\<open>{detail: null}\<close> has \<open>DetailOther False ''null''\<close>.
\<close>

datatype detail_value = DetailString string | DetailOther bool string

text \<open>
  A body that is \<^verbatim>\<open>null\<close> or \<^verbatim>\<open>undefined\<close> has no properties: reading \<^verbatim>\<open>detail\<close> of it
  throws a \<^verbatim>\<open>TypeError\<close>, whose message is in the wording of the JavaScript engine;
  \<open>NullishBody t\<close> is such a body, \<open>t\<close> that message. Any other body (an object, an array,
  a string, a number, a boolean) is \<open>Body d\<close>, where \<open>d\<close> is its \<^verbatim>\<open>detail\<close> and
  \<open>None\<close> is \<^verbatim>\<open>undefined\<close>: the body has no such property. The field \<open>body\<close> of a
  response is \<^verbatim>\<open>error.response.data\<close>.
\<close>

datatype response_body = NullishBody string | Body "detail_value option"

record axios_response =
  status :: nat
  body :: response_body

text \<open>\<^verbatim>\<open>error.request\<close> is the truthiness of that property: the request was made.\<close>

record axios_error =
  response :: "axios_response option"
  request :: bool

datatype axios_outcome = Resolved evaluation_result | Rejected axios_error

text \<open>
  The observable effects of a submission, in the order the code performs them: the state
  setters of the form, the one network call, the log line, and the \<^verbatim>\<open>onResult\<close> callback.
  (\<^verbatim>\<open>event.preventDefault()\<close> acts on the DOM event only and is left out.)
\<close>

datatype effect =
    SetLoading bool
  | SetError string
  | AxiosPost jsobject
  | ConsoleError axios_error
  | OnResult evaluation_result

text \<open>
  \<^verbatim>\<open>evaluateWaterQuality(data)\<close>: one \<^verbatim>\<open>axios.post('/evaluate', data)\<close>, whose outcome the
  environment \<open>axios_post\<close> decides. \<open>Inr\<close> is the returned \<^verbatim>\<open>response.data\<close>, \<open>Inl m\<close> is
  a thrown error with the message \<open>m\<close>: \<^verbatim>\<open>throw new Error(m)\<close>, or the \<^verbatim>\<open>TypeError\<close> of
  reading \<^verbatim>\<open>detail\<close> of a body that is \<^verbatim>\<open>null\<close> or \<^verbatim>\<open>undefined\<close>, which leaves the
  \<^verbatim>\<open>catch\<close> block as the other errors do. In \<^verbatim>\<open>detail || "..."\<close> the empty string is
  falsy, as \<^verbatim>\<open>undefined\<close> is.
\<close>

definition evaluateWaterQuality ::
    "(jsobject \<Rightarrow> axios_outcome) \<Rightarrow> jsobject \<Rightarrow> effect list \<times> (string + evaluation_result)" where
  "evaluateWaterQuality axios_post data =
     (case axios_post data of
        Resolved result \<Rightarrow> ([AxiosPost data], Inr result)
      | Rejected error \<Rightarrow>
          ([AxiosPost data, ConsoleError error],
           (case response error of
              Some resp \<Rightarrow>
                (case body resp of
                   NullishBody t \<Rightarrow> Inl t
                 | Body None \<Rightarrow>
                     Inl ''An error occurred while evaluating water quality.''
                 | Body (Some (DetailString d)) \<Rightarrow>
                     if d \<noteq> [] then Inl d
                     else Inl ''An error occurred while evaluating water quality.''
                 | Body (Some (DetailOther truthy t)) \<Rightarrow>
                     if truthy then Inl t
                     else Inl ''An error occurred while evaluating water quality.'')
            | None \<Rightarrow>
                if request error
                then Inl ''The server did not respond. Please check your connection.''
                else Inl ''An error occurred while setting up the request.'')))"

section \<open>The form: \<^verbatim>\<open>handleSubmit\<close>\<close>

text \<open>
  \<^verbatim>\<open>src/client/src/components/WaterQualityForm.jsx\<close>: the form data goes to the service
  call as it is. \<^verbatim>\<open>try\<close>, \<^verbatim>\<open>catch\<close> and \<^verbatim>\<open>finally\<close> become the two branches and the last
  effect; \<^verbatim>\<open>onResult\<close> is \<^verbatim>\<open>handleResult\<close> of \<^verbatim>\<open>App\<close>, a state setter, which does not
  throw.
\<close>

definition handleSubmit :: "(jsobject \<Rightarrow> axios_outcome) \<Rightarrow> jsobject \<Rightarrow> effect list" where
  "handleSubmit axios_post formData =
     [SetLoading True, SetError []] @
     (case evaluateWaterQuality axios_post formData of
        (tr, Inr result) \<Rightarrow> tr @ [OnResult result]
      | (tr, Inl message) \<Rightarrow> tr @ [SetError message]) @
     [SetLoading False]"

text \<open>
  \<^verbatim>\<open>src/unnamed/part_000\<close> (both revisions):
  \<^verbatim>\<open>Object.fromEntries(Object.entries(formData).map(([key, value]) =>
      [key, value === '' ? null : value]))\<close>
  is sent instead.
\<close>

definition entries :: "jsobject \<Rightarrow> (string \<times> jsval) list" where
  "entries ob = ob"

definition fromEntries :: "(string \<times> jsval) list \<Rightarrow> jsobject" where
  "fromEntries es = foldl (\<lambda>ob (key, v). AList.update key v ob) [] es"

definition processedFormData :: "jsobject \<Rightarrow> jsobject" where
  "processedFormData formData =
     fromEntries (map (\<lambda>(key, v). (key, if v = JStr [] then JNull else v)) (entries formData))"

definition handleSubmit_part_000 :: "(jsobject \<Rightarrow> axios_outcome) \<Rightarrow> jsobject \<Rightarrow> effect list" where
  "handleSubmit_part_000 axios_post formData =
     [SetLoading True, SetError []] @
     (case evaluateWaterQuality axios_post (processedFormData formData) of
        (tr, Inr result) \<Rightarrow> tr @ [OnResult result]
      | (tr, Inl message) \<Rightarrow> tr @ [SetError message]) @
     [SetLoading False]"

section \<open>The parameter list\<close>

record parameter =
  name :: string
  label :: string
  type :: "string option"

text \<open>\<^verbatim>\<open>src/client/src/components/WaterQualityForm.jsx\<close>, lines 36 to 52.\<close>

definition parameters :: "parameter list" where
  "parameters =
    [\<lparr>name = ''Temperature'', label = ''Temperature ('' @ [CHR 0xC2, CHR 0xB0] @ ''C)'', type = Some ''number''\<rparr>,
     \<lparr>name = ''pH'', label = ''pH'', type = Some ''number''\<rparr>,
     \<lparr>name = ''Turbidity'', label = ''Turbidity (NTU)'', type = Some ''number''\<rparr>,
     \<lparr>name = ''DissolvedOxygen'', label = ''Dissolved Oxygen (mg/L)'', type = Some ''number''\<rparr>,
     \<lparr>name = ''Conductivity'', label = ''Conductivity ('' @ [CHR 0xC2, CHR 0xB5] @ ''S/cm)'', type = Some ''number''\<rparr>,
     \<lparr>name = ''TotalDissolvedSolids'', label = ''Total Dissolved Solids (mg/L)'', type = Some ''number''\<rparr>,
     \<lparr>name = ''Nitrate'', label = ''Nitrate (mg/L)'', type = Some ''number''\<rparr>,
     \<lparr>name = ''Phosphate'', label = ''Phosphate (mg/L)'', type = Some ''number''\<rparr>,
     \<lparr>name = ''TotalColiforms'', label = ''Total Coliforms (CFU/100mL)'', type = Some ''number''\<rparr>,
     \<lparr>name = ''Ecoli'', label = ''E. coli (CFU/100mL)'', type = Some ''number''\<rparr>,
     \<lparr>name = ''BOD'', label = ''BOD (mg/L)'', type = Some ''number''\<rparr>,
     \<lparr>name = ''COD'', label = ''COD (mg/L)'', type = Some ''number''\<rparr>,
     \<lparr>name = ''Hardness'', label = ''Hardness (mg/L as CaCO3)'', type = Some ''number''\<rparr>,
     \<lparr>name = ''Alkalinity'', label = ''Alkalinity (mg/L as CaCO3)'', type = Some ''number''\<rparr>,
     \<lparr>name = ''Iron'', label = ''Iron (mg/L)'', type = Some ''number''\<rparr>]"

text \<open>
  \<^verbatim>\<open>src/unnamed/part_000\<close>, lines 45 to 61: the same names and labels, with no
  \<^verbatim>\<open>type\<close> property.
\<close>

definition parameters_part_000 :: "parameter list" where
  "parameters_part_000 =
    [\<lparr>name = ''Temperature'', label = ''Temperature ('' @ [CHR 0xC2, CHR 0xB0] @ ''C)'', type = None\<rparr>,
     \<lparr>name = ''pH'', label = ''pH'', type = None\<rparr>,
     \<lparr>name = ''Turbidity'', label = ''Turbidity (NTU)'', type = None\<rparr>,
     \<lparr>name = ''DissolvedOxygen'', label = ''Dissolved Oxygen (mg/L)'', type = None\<rparr>,
     \<lparr>name = ''Conductivity'', label = ''Conductivity ('' @ [CHR 0xC2, CHR 0xB5] @ ''S/cm)'', type = None\<rparr>,
     \<lparr>name = ''TotalDissolvedSolids'', label = ''Total Dissolved Solids (mg/L)'', type = None\<rparr>,
     \<lparr>name = ''Nitrate'', label = ''Nitrate (mg/L)'', type = None\<rparr>,
     \<lparr>name = ''Phosphate'', label = ''Phosphate (mg/L)'', type = None\<rparr>,
     \<lparr>name = ''TotalColiforms'', label = ''Total Coliforms (CFU/100mL)'', type = None\<rparr>,
     \<lparr>name = ''Ecoli'', label = ''E. coli (CFU/100mL)'', type = None\<rparr>,
     \<lparr>name = ''BOD'', label = ''BOD (mg/L)'', type = None\<rparr>,
     \<lparr>name = ''COD'', label = ''COD (mg/L)'', type = None\<rparr>,
     \<lparr>name = ''Hardness'', label = ''Hardness (mg/L as CaCO3)'', type = None\<rparr>,
     \<lparr>name = ''Alkalinity'', label = ''Alkalinity (mg/L as CaCO3)'', type = None\<rparr>,
     \<lparr>name = ''Iron'', label = ''Iron (mg/L)'', type = None\<rparr>]"

text \<open>
  \<^verbatim>\<open>src/unnamed/part_000\<close>, lines 149 to 165 (the second revision in that file): every
  \<^verbatim>\<open>type\<close> is \<^verbatim>\<open>'text'\<close>.
\<close>

definition parameters_part_000_text :: "parameter list" where
  "parameters_part_000_text =
    [\<lparr>name = ''Temperature'', label = ''Temperature ('' @ [CHR 0xC2, CHR 0xB0] @ ''C)'', type = Some ''text''\<rparr>,
     \<lparr>name = ''pH'', label = ''pH'', type = Some ''text''\<rparr>,
     \<lparr>name = ''Turbidity'', label = ''Turbidity (NTU)'', type = Some ''text''\<rparr>,
     \<lparr>name = ''DissolvedOxygen'', label = ''Dissolved Oxygen (mg/L)'', type = Some ''text''\<rparr>,
     \<lparr>name = ''Conductivity'', label = ''Conductivity ('' @ [CHR 0xC2, CHR 0xB5] @ ''S/cm)'', type = Some ''text''\<rparr>,
     \<lparr>name = ''TotalDissolvedSolids'', label = ''Total Dissolved Solids (mg/L)'', type = Some ''text''\<rparr>,
     \<lparr>name = ''Nitrate'', label = ''Nitrate (mg/L)'', type = Some ''text''\<rparr>,
     \<lparr>name = ''Phosphate'', label = ''Phosphate (mg/L)'', type = Some ''text''\<rparr>,
     \<lparr>name = ''TotalColiforms'', label = ''Total Coliforms (CFU/100mL)'', type = Some ''text''\<rparr>,
     \<lparr>name = ''Ecoli'', label = ''E. coli (CFU/100mL)'', type = Some ''text''\<rparr>,
     \<lparr>name = ''BOD'', label = ''BOD (mg/L)'', type = Some ''text''\<rparr>,
     \<lparr>name = ''COD'', label = ''COD (mg/L)'', type = Some ''text''\<rparr>,
     \<lparr>name = ''Hardness'', label = ''Hardness (mg/L as CaCO3)'', type = Some ''text''\<rparr>,
     \<lparr>name = ''Alkalinity'', label = ''Alkalinity (mg/L as CaCO3)'', type = Some ''text''\<rparr>,
     \<lparr>name = ''Iron'', label = ''Iron (mg/L)'', type = Some ''text''\<rparr>]"

section \<open>The application state\<close>

text \<open>
  The three \<^verbatim>\<open>useState\<close> cells of the form (\<^verbatim>\<open>formData\<close>, \<^verbatim>\<open>error\<close>, \<^verbatim>\<open>loading\<close>) and
  the one of \<^verbatim>\<open>App\<close> (\<^verbatim>\<open>evaluationResult\<close>, initially \<^verbatim>\<open>null\<close>).
\<close>

record app_state =
  formData :: jsobject
  error :: string
  loading :: bool
  evaluationResult :: "evaluation_result option"

definition initial_state :: app_state where
  "initial_state = \<lparr>formData = [], error = [], loading = False, evaluationResult = None\<rparr>"

text \<open>\<^verbatim>\<open>App.handleResult\<close> of \<^verbatim>\<open>src/unnamed/part_001\<close>: \<^verbatim>\<open>setEvaluationResult(result)\<close>.\<close>

definition handleResult :: "evaluation_result \<Rightarrow> app_state \<Rightarrow> app_state" where
  "handleResult result s = s\<lparr>evaluationResult := Some result\<rparr>"

fun apply_effect :: "app_state \<Rightarrow> effect \<Rightarrow> app_state" where
  "apply_effect s (SetLoading b) = s\<lparr>loading := b\<rparr>"
| "apply_effect s (SetError m) = s\<lparr>error := m\<rparr>"
| "apply_effect s (AxiosPost d) = s"
| "apply_effect s (ConsoleError e) = s"
| "apply_effect s (OnResult r) = handleResult r s"

definition run_effects :: "app_state \<Rightarrow> effect list \<Rightarrow> app_state" where
  "run_effects s tr = foldl apply_effect s tr"

text \<open>A change event and a submit event, on the whole state.\<close>

definition change_event :: "string \<Rightarrow> string \<Rightarrow> app_state \<Rightarrow> app_state" where
  "change_event k val s = s\<lparr>formData := handleChange k val (formData s)\<rparr>"

definition change_event_part_000 :: "string \<Rightarrow> string \<Rightarrow> app_state \<Rightarrow> app_state" where
  "change_event_part_000 k val s = s\<lparr>formData := handleChange_part_000 k val (formData s)\<rparr>"

definition submit_event :: "(jsobject \<Rightarrow> axios_outcome) \<Rightarrow> app_state \<Rightarrow> app_state" where
  "submit_event axios_post s = run_effects s (handleSubmit axios_post (formData s))"

definition submit_event_part_000 :: "(jsobject \<Rightarrow> axios_outcome) \<Rightarrow> app_state \<Rightarrow> app_state" where
  "submit_event_part_000 axios_post s =
     run_effects s (handleSubmit_part_000 axios_post (formData s))"

text \<open>The payloads of the network calls in a trace, in order.\<close>

fun dispatched :: "effect list \<Rightarrow> jsobject list" where
  "dispatched [] = []"
| "dispatched (AxiosPost d # tr) = d # dispatched tr"
| "dispatched (e # tr) = dispatched tr"

text \<open>The results handed to \<^verbatim>\<open>onResult\<close> in a trace, in order.\<close>

fun delivered :: "effect list \<Rightarrow> evaluation_result list" where
  "delivered [] = []"
| "delivered (OnResult r # tr) = r # delivered tr"
| "delivered (e # tr) = delivered tr"

section \<open>The failure classes of the specification\<close>

text \<open>
  Section 4.3 of the specification, in its words: a failure is a service error when the
  service responded, else a missing response when the request was sent, else a failure
  to set the request up; each class has one message. The message of a service error is
  the one the service gave if there is one, else the fallback; for the bodies the
  specification does not speak of it is what JavaScript gives: the string made of a
  truthy \<^verbatim>\<open>detail\<close> that is not a string, the fallback for a falsy one, and the message
  of the \<^verbatim>\<open>TypeError\<close> for a body that is \<^verbatim>\<open>null\<close> or \<^verbatim>\<open>undefined\<close>.
\<close>

datatype failure_class = ServiceError | NoResponse | RequestSetupFailure

definition classify :: "axios_error \<Rightarrow> failure_class" where
  "classify e =
     (if response e \<noteq> None then ServiceError
      else if request e then NoResponse
      else RequestSetupFailure)"

fun class_message :: "failure_class \<Rightarrow> response_body \<Rightarrow> string" where
  "class_message ServiceError (Body (Some (DetailString d))) =
     (if d = [] then ''An error occurred while evaluating water quality.'' else d)"
| "class_message ServiceError (Body None) =
     ''An error occurred while evaluating water quality.''"
| "class_message ServiceError (Body (Some (DetailOther truthy t))) =
     (if truthy then t else ''An error occurred while evaluating water quality.'')"
| "class_message ServiceError (NullishBody t) = t"
| "class_message NoResponse _ = ''The server did not respond. Please check your connection.''"
| "class_message RequestSetupFailure _ = ''An error occurred while setting up the request.''"

definition service_body :: "axios_error \<Rightarrow> response_body" where
  "service_body e = (case response e of None \<Rightarrow> Body None | Some resp \<Rightarrow> body resp)"

definition failure_message :: "axios_error \<Rightarrow> string" where
  "failure_message e = class_message (classify e) (service_body e)"

section \<open>Service behaviours used as test inputs\<close>

text \<open>The responses of section 8 of the specification.\<close>

definition example_result :: evaluation_result where
  "example_result = \<lparr>quality_score = 165 / 2, report = ''Good'', graph = ''iVBORw0KGgo=''\<rparr>"

definition service_ok :: "jsobject \<Rightarrow> axios_outcome" where
  "service_ok data = Resolved example_result"

definition service_422 :: "jsobject \<Rightarrow> axios_outcome" where
  "service_422 data =
     Rejected \<lparr>response = Some \<lparr>status = 422,
                               body = Body (Some (DetailString ''Invalid pH value''))\<rparr>,
               request = True\<rparr>"

definition service_empty_detail :: "jsobject \<Rightarrow> axios_outcome" where
  "service_empty_detail data =
     Rejected \<lparr>response = Some \<lparr>status = 422, body = Body (Some (DetailString []))\<rparr>,
               request = True\<rparr>"

definition service_500 :: "jsobject \<Rightarrow> axios_outcome" where
  "service_500 data =
     Rejected \<lparr>response = Some \<lparr>status = 500, body = Body None\<rparr>, request = True\<rparr>"

text \<open>
  A 500 response whose JSON body is \<^verbatim>\<open>null\<close>, on an engine that words the \<^verbatim>\<open>TypeError\<close> as
  V8 does; and a 422 response whose \<^verbatim>\<open>detail\<close> is a list of objects.
\<close>

definition null_body_message :: string where
  "null_body_message =
     ''Cannot read properties of null (reading '' @ [CHR 0x27] @ ''detail'' @ [CHR 0x27] @ '')''"

definition service_null_body :: "jsobject \<Rightarrow> axios_outcome" where
  "service_null_body data =
     Rejected \<lparr>response = Some \<lparr>status = 500, body = NullishBody null_body_message\<rparr>,
               request = True\<rparr>"

definition service_detail_list :: "jsobject \<Rightarrow> axios_outcome" where
  "service_detail_list data =
     Rejected \<lparr>response =
                 Some \<lparr>status = 422,
                       body = Body (Some (DetailOther True ''[object Object]''))\<rparr>,
               request = True\<rparr>"

definition network_drop :: "jsobject \<Rightarrow> axios_outcome" where
  "network_drop data = Rejected \<lparr>response = None, request = True\<rparr>"

definition setup_failure :: "jsobject \<Rightarrow> axios_outcome" where
  "setup_failure data = Rejected \<lparr>response = None, request = False\<rparr>"

section \<open>Evaluating the model\<close>

lemma parseFloat_examples:
  "parseFloat ''7.2'' = Fin (36 / 5)"
  "parseFloat ''0'' = Fin 0"
  "parseFloat ''abc'' = NaN"
  "parseFloat ''-'' = NaN"
  "parseFloat ''3.'' = Fin 3"
  "parseFloat '''' = NaN"
  "parseFloat ('' '' @ [CHR 0xC2, CHR 0xA0, CHR 0xE2, CHR 0x80, CHR 0x89] @ ''7'') = Fin 7"
  "parseFloat ''1e400'' = PosInfinity"
  "parseFloat ''-1e400'' = NegInfinity"
  by (simp_all add: parseFloat_def unsigned_literal_def finite_or_infinity_def
      space_length_def white_space_def is_digit_def digits_val_def digit_val_def
      exponent_part_def pow10_def signed_integer_def)

lemmas parseFloat_defs =
  parseFloat_def unsigned_literal_def finite_or_infinity_def space_length_def white_space_def is_digit_def
  digits_val_def digit_val_def exponent_part_def pow10_def signed_integer_def

section \<open>Objects: lookup after an update, keys that stay distinct\<close>

lemma map_of_handleChange:
  "map_of (handleChange k v fd) k' =
     (if k' = k then Some (if v \<noteq> [] then JNum (parseFloat v) else JNull) else map_of fd k')"
  by (simp add: handleChange_def update_conv')

lemma map_of_handleChange_part_000:
  "map_of (handleChange_part_000 k v fd) k' =
     (if k' = k then Some (if v = [] then JStr [] else JNum (parseFloat v)) else map_of fd k')"
  by (simp add: handleChange_part_000_def update_conv')

lemma distinct_handleChange:
  "distinct (map fst fd) \<Longrightarrow> distinct (map fst (handleChange k v fd))"
  by (simp add: handleChange_def distinct_update)

lemma distinct_handleChange_part_000:
  "distinct (map fst fd) \<Longrightarrow> distinct (map fst (handleChange_part_000 k v fd))"
  by (simp add: handleChange_part_000_def distinct_update)

lemma update_new_key:
  "k \<notin> fst ` set ob \<Longrightarrow> AList.update k v ob = ob @ [(k, v)]"
  by (induction ob) auto

lemma foldl_update_distinct:
  "distinct (map fst (acc @ es)) \<Longrightarrow>
   foldl (\<lambda>ob (key, v). AList.update key v ob) acc es = acc @ es"
proof (induction es arbitrary: acc)
  case Nil
  then show ?case by simp
next
  case (Cons e es)
  obtain k v where e: "e = (k, v)" by (cases e)
  from Cons.prems e have new: "k \<notin> fst ` set acc" by auto
  from Cons.prems e have "distinct (map fst ((acc @ [(k, v)]) @ es))" by simp
  from Cons.IH [OF this] show ?case
    by (simp add: e update_new_key [OF new])
qed

lemma fromEntries_distinct:
  "distinct (map fst es) \<Longrightarrow> fromEntries es = es"
  using foldl_update_distinct [of "[]" es] by (simp add: fromEntries_def)

lemma processedFormData_distinct:
  assumes "distinct (map fst fd)"
  shows "processedFormData fd = map (\<lambda>(key, v). (key, if v = JStr [] then JNull else v)) fd"
proof -
  let ?es = "map (\<lambda>(key, v). (key, if v = JStr [] then JNull else v)) fd"
  have "map fst ?es = map fst fd"
    by (induction fd) auto
  with assms have "distinct (map fst ?es)"
    by (simp only:)
  then have "fromEntries ?es = ?es"
    by (rule fromEntries_distinct)
  then show ?thesis
    by (simp add: processedFormData_def entries_def)
qed

lemma map_of_processedFormData:
  assumes "distinct (map fst fd)"
  shows "map_of (processedFormData fd) k =
         map_option (\<lambda>v. if v = JStr [] then JNull else v) (map_of fd k)"
  by (simp add: processedFormData_distinct [OF assms] map_of_map)

section \<open>The trace of a submission\<close>

lemma evaluateWaterQuality_Resolved:
  "ap d = Resolved r \<Longrightarrow> evaluateWaterQuality ap d = ([AxiosPost d], Inr r)"
  by (simp add: evaluateWaterQuality_def)

lemma evaluateWaterQuality_Rejected:
  "ap d = Rejected e \<Longrightarrow>
   evaluateWaterQuality ap d = ([AxiosPost d, ConsoleError e], Inl (failure_message e))"
  by (simp add: evaluateWaterQuality_def failure_message_def classify_def service_body_def
      split: option.splits response_body.splits detail_value.splits)

lemma handleSubmit_Resolved:
  "ap fd = Resolved r \<Longrightarrow>
   handleSubmit ap fd =
     [SetLoading True, SetError [], AxiosPost fd, OnResult r, SetLoading False]"
  by (simp add: handleSubmit_def evaluateWaterQuality_Resolved)

lemma handleSubmit_Rejected:
  "ap fd = Rejected e \<Longrightarrow>
   handleSubmit ap fd =
     [SetLoading True, SetError [], AxiosPost fd, ConsoleError e,
      SetError (failure_message e), SetLoading False]"
  by (simp add: handleSubmit_def evaluateWaterQuality_Rejected)

lemma handleSubmit_part_000_eq:
  "handleSubmit_part_000 ap fd = handleSubmit ap (processedFormData fd)"
  by (simp add: handleSubmit_part_000_def handleSubmit_def)

lemma dispatched_handleSubmit:
  "dispatched (handleSubmit ap fd) = [fd]"
proof (cases "ap fd")
  case (Resolved r)
  then show ?thesis by (simp add: handleSubmit_Resolved)
next
  case (Rejected e)
  then show ?thesis by (simp add: handleSubmit_Rejected)
qed

lemma dispatched_handleSubmit_part_000:
  "dispatched (handleSubmit_part_000 ap fd) = [processedFormData fd]"
  by (simp add: handleSubmit_part_000_eq dispatched_handleSubmit)

lemma submit_event_Resolved:
  "ap (formData s) = Resolved r \<Longrightarrow>
   submit_event ap s = s\<lparr>error := [], evaluationResult := Some r, loading := False\<rparr>"
  by (simp add: submit_event_def run_effects_def handleResult_def
      handleSubmit_Resolved [of ap "formData s" r])

lemma submit_event_Rejected:
  "ap (formData s) = Rejected e \<Longrightarrow>
   submit_event ap s = s\<lparr>error := failure_message e, loading := False\<rparr>"
  by (simp add: submit_event_def run_effects_def
      handleSubmit_Rejected [of ap "formData s" e])

lemma submit_event_part_000_eq:
  "submit_event_part_000 ap s = run_effects s (handleSubmit ap (processedFormData (formData s)))"
  by (simp add: submit_event_part_000_def handleSubmit_part_000_eq)

text \<open>
  The call is awaited, so a change event can come between the effects of a submission.
  The effects touch \<^verbatim>\<open>error\<close>, \<^verbatim>\<open>loading\<close> and \<^verbatim>\<open>evaluationResult\<close> only, a change event
  touches \<^verbatim>\<open>formData\<close> only: they commute.
\<close>

lemma apply_effect_change_event:
  "apply_effect (change_event k v s) e = change_event k v (apply_effect s e)"
  by (cases e) (simp_all add: change_event_def handleResult_def)

lemma run_effects_change_event:
  "run_effects (change_event k v s) tr = change_event k v (run_effects s tr)"
  unfolding run_effects_def
  by (induction tr arbitrary: s) (simp_all add: apply_effect_change_event)

lemma apply_effect_change_event_part_000:
  "apply_effect (change_event_part_000 k v s) e = change_event_part_000 k v (apply_effect s e)"
  by (cases e) (simp_all add: change_event_part_000_def handleResult_def)

lemma run_effects_change_event_part_000:
  "run_effects (change_event_part_000 k v s) tr = change_event_part_000 k v (run_effects s tr)"
  unfolding run_effects_def
  by (induction tr arbitrary: s) (simp_all add: apply_effect_change_event_part_000)


text \<open>
  A truthy \<^verbatim>\<open>detail\<close> that is not a string, here a list of objects, gives the string
  \<^verbatim>\<open>new Error\<close> makes of it; a body that is \<^verbatim>\<open>null\<close> gives the message of the
  \<^verbatim>\<open>TypeError\<close>, and the submission ends as after any other failure.
\<close>

lemma service_error_other_bodies:
  "snd (evaluateWaterQuality service_detail_list []) = Inl ''[object Object]''"
  "handleSubmit service_null_body [] =
     [SetLoading True, SetError [], AxiosPost [],
      ConsoleError \<lparr>response = Some \<lparr>status = 500, body = NullishBody null_body_message\<rparr>,
                    request = True\<rparr>,
      SetError null_body_message, SetLoading False]"
  by (simp_all add: evaluateWaterQuality_def handleSubmit_def service_detail_list_def
      service_null_body_def)

section \<open>Field changes and the payload\<close>

text \<open>
  Claim C1, as stated: a field holding a non-empty string that is not a number (such as
  \<^verbatim>\<open>abc\<close>) makes the submission fail with a validation error before any call is
  dispatched, and no payload with \<^verbatim>\<open>NaN\<close> reaches the service call.
  The code has no validation step: after \<^verbatim>\<open>abc\<close> is typed into the field \<^verbatim>\<open>pH\<close>, the
  submission performs the call, with \<^verbatim>\<open>NaN\<close> for \<^verbatim>\<open>pH\<close> in the payload, and delivers the
  result.
\<close>

theorem nonnumeric_input_counterexample:
  "handleSubmit service_ok (handleChange ''pH'' ''abc'' []) =
     [SetLoading True, SetError [], AxiosPost [(''pH'', JNum NaN)],
      OnResult example_result, SetLoading False]
   \<and> handleSubmit_part_000 service_ok (handleChange_part_000 ''pH'' ''abc'' []) =
     [SetLoading True, SetError [], AxiosPost [(''pH'', JNum NaN)],
      OnResult example_result, SetLoading False]"
  by (simp add: handleSubmit_part_000_eq handleSubmit_Resolved [of service_ok]
      service_ok_def handleChange_def handleChange_part_000_def
      processedFormData_def entries_def fromEntries_def parseFloat_defs)

text \<open>
  Claim C1, amended: a non-empty string that \<^verbatim>\<open>parseFloat\<close> does not accept is stored as
  \<^verbatim>\<open>NaN\<close> when the field changes, and a submission performs no validation: it dispatches
  exactly one call, whose payload has \<^verbatim>\<open>NaN\<close> for that key.
\<close>

theorem nonnumeric_input_dispatched_as_NaN:
  assumes "v \<noteq> []" and "parseFloat v = NaN" and "distinct (map fst fd)"
  shows "dispatched (handleSubmit ap (handleChange k v fd)) = [handleChange k v fd]
       \<and> map_of (handleChange k v fd) k = Some (JNum NaN)
       \<and> dispatched (handleSubmit_part_000 ap (handleChange_part_000 k v fd)) =
           [processedFormData (handleChange_part_000 k v fd)]
       \<and> map_of (processedFormData (handleChange_part_000 k v fd)) k = Some (JNum NaN)"
proof -
  from assms(3) have "distinct (map fst (handleChange_part_000 k v fd))"
    by (rule distinct_handleChange_part_000)
  then have "map_of (processedFormData (handleChange_part_000 k v fd)) k = Some (JNum NaN)"
    using assms(1,2) by (simp add: map_of_processedFormData map_of_handleChange_part_000)
  moreover have "map_of (handleChange k v fd) k = Some (JNum NaN)"
    using assms(1,2) by (simp add: map_of_handleChange)
  ultimately show ?thesis
    by (simp add: dispatched_handleSubmit dispatched_handleSubmit_part_000)
qed

text \<open>The amended claim C1 at the input \<^verbatim>\<open>abc\<close> for \<^verbatim>\<open>pH\<close>, on the empty form.\<close>

theorem nonnumeric_input_dispatched_as_NaN_witness:
  "dispatched (handleSubmit service_ok (handleChange ''pH'' ''abc'' [])) =
     [handleChange ''pH'' ''abc'' []]
   \<and> map_of (handleChange ''pH'' ''abc'' []) ''pH'' = Some (JNum NaN)
   \<and> dispatched (handleSubmit_part_000 service_ok (handleChange_part_000 ''pH'' ''abc'' [])) =
       [processedFormData (handleChange_part_000 ''pH'' ''abc'' [])]
   \<and> map_of (processedFormData (handleChange_part_000 ''pH'' ''abc'' [])) ''pH'' =
       Some (JNum NaN)"
proof -
  have ne: "''abc'' \<noteq> []" by simp
  have nan: "parseFloat ''abc'' = NaN" by (simp add: parseFloat_defs)
  have dist: "distinct (map fst ([] :: jsobject))" by simp
  show ?thesis
    by (rule nonnumeric_input_dispatched_as_NaN [OF ne nan dist])
qed

text \<open>
  Claim C2, as stated: for each of the fifteen keys, an absent or empty entry of the form
  data gives \<^verbatim>\<open>null\<close> for that key in the payload, and the key is never left out.
  The payload is built from the entries the form data has: the untouched form submits
  the empty object, which has no entry for \<^verbatim>\<open>pH\<close>, one of the fifteen keys.
\<close>

theorem absent_entry_counterexample:
  "''pH'' \<in> set (map name parameters)
   \<and> formData initial_state = []
   \<and> dispatched (handleSubmit service_ok (formData initial_state)) = [[]]
   \<and> dispatched (handleSubmit_part_000 service_ok (formData initial_state)) = [[]]
   \<and> map_of ([] :: jsobject) ''pH'' \<noteq> Some JNull"
  by (simp add: parameters_def initial_state_def dispatched_handleSubmit
      dispatched_handleSubmit_part_000 processedFormData_def entries_def fromEntries_def)

text \<open>
  Claim C2, amended: an entry that is empty at submission gives \<^verbatim>\<open>null\<close> for its key in
  the payload; a key with no entry has no entry in the payload either (so its value is
  neither 0 nor \<^verbatim>\<open>NaN\<close>). In \<^verbatim>\<open>WaterQualityForm.jsx\<close> the payload is the form data itself,
  where a change to the empty string has stored \<^verbatim>\<open>null\<close>; in \<^verbatim>\<open>part_000\<close> such a change
  stores the empty string, which the payload replaces by \<^verbatim>\<open>null\<close>.
\<close>

theorem empty_entry_null_absent_entry_omitted:
  assumes "distinct (map fst fd)"
  shows "dispatched (handleSubmit ap fd) = [fd]
       \<and> dispatched (handleSubmit_part_000 ap fd) = [processedFormData fd]
       \<and> (map_of fd k = Some (JStr []) \<longrightarrow> map_of (processedFormData fd) k = Some JNull)
       \<and> (map_of fd k = None \<longrightarrow> map_of (processedFormData fd) k = None)
       \<and> map_of (handleChange k [] fd) k = Some JNull
       \<and> map_of (processedFormData (handleChange_part_000 k [] fd)) k = Some JNull"
proof -
  from assms have "distinct (map fst (handleChange_part_000 k [] fd))"
    by (rule distinct_handleChange_part_000)
  then have "map_of (processedFormData (handleChange_part_000 k [] fd)) k = Some JNull"
    by (simp add: map_of_processedFormData map_of_handleChange_part_000)
  then show ?thesis
    using assms
    by (simp add: dispatched_handleSubmit dispatched_handleSubmit_part_000
        map_of_processedFormData map_of_handleChange)
qed

text \<open>
  The amended claim C2 on a form where \<^verbatim>\<open>pH\<close> was typed and then cleared, and \<^verbatim>\<open>Iron\<close>
  was never touched.
\<close>

theorem empty_entry_null_absent_entry_omitted_witness:
  "dispatched (handleSubmit service_ok [(''pH'', JNull)]) = [[(''pH'', JNull)]]
   \<and> dispatched (handleSubmit_part_000 service_ok [(''pH'', JStr [])]) = [[(''pH'', JNull)]]
   \<and> map_of (processedFormData [(''pH'', JStr [])]) ''pH'' = Some JNull
   \<and> map_of (processedFormData [(''pH'', JStr [])]) ''Iron'' = None
   \<and> handleChange ''pH'' [] (handleChange ''pH'' ''7.2'' []) = [(''pH'', JNull)]
   \<and> handleChange_part_000 ''pH'' [] (handleChange_part_000 ''pH'' ''7.2'' []) =
       [(''pH'', JStr [])]"
proof -
  have d1: "distinct (map fst [(''pH'', JNull)])" by simp
  have d2: "distinct (map fst [(''pH'', JStr [])])" by simp
  have pd: "processedFormData [(''pH'', JStr [])] = [(''pH'', JNull)]"
    by (simp add: processedFormData_def entries_def fromEntries_def)
  show ?thesis
    using empty_entry_null_absent_entry_omitted [OF d1, of service_ok "''pH''"]
      empty_entry_null_absent_entry_omitted [OF d2, of service_ok "''pH''"]
      empty_entry_null_absent_entry_omitted [OF d2, of service_ok "''Iron''"]
    by (simp add: pd handleChange_def handleChange_part_000_def)
qed

text \<open>
  Claim C3, as stated: a field change stores the raw string as it is when it is not
  empty, and no number is parsed at that time, so that \<^verbatim>\<open>-\<close> and \<^verbatim>\<open>3.\<close> are kept while
  typing. The code calls \<^verbatim>\<open>parseFloat\<close> in \<^verbatim>\<open>handleChange\<close>: \<^verbatim>\<open>3.\<close> is stored as the
  number 3 and \<^verbatim>\<open>-\<close> as \<^verbatim>\<open>NaN\<close>, in every revision.
\<close>

theorem raw_string_not_stored_counterexample:
  "handleChange ''pH'' ''3.'' [] = [(''pH'', JNum (Fin 3))]
   \<and> handleChange ''pH'' ''3.'' [] \<noteq> [(''pH'', JStr ''3.'')]
   \<and> handleChange ''pH'' ''-'' [] = [(''pH'', JNum NaN)]
   \<and> handleChange_part_000 ''pH'' ''3.'' [] = [(''pH'', JNum (Fin 3))]
   \<and> handleChange_part_000 ''pH'' ''3.'' [] \<noteq> [(''pH'', JStr ''3.'')]
   \<and> handleChange_part_000 ''pH'' ''-'' [] = [(''pH'', JNum NaN)]"
  by (simp add: handleChange_def handleChange_part_000_def parseFloat_defs)

text \<open>
  Claim C3, amended: for every key and every raw string, a field change stores under
  that key the number \<^verbatim>\<open>parseFloat\<close> gives for the string (\<^verbatim>\<open>NaN\<close> when it has no numeric
  prefix) when the string is not empty, and an empty marker when it is (\<^verbatim>\<open>null\<close> in
  \<^verbatim>\<open>WaterQualityForm.jsx\<close>, the empty string in \<^verbatim>\<open>part_000\<close>); the number is parsed at the
  time of the change, and a submission parses nothing: it sends the form data as it is
  (in \<^verbatim>\<open>part_000\<close>, with \<^verbatim>\<open>null\<close> in place of the empty string).
\<close>

theorem handleChange_stores_parsed_number:
  "map_of (handleChange k v fd) k = Some (if v = [] then JNull else JNum (parseFloat v))
   \<and> map_of (handleChange_part_000 k v fd) k =
       Some (if v = [] then JStr [] else JNum (parseFloat v))
   \<and> dispatched (handleSubmit ap (handleChange k v fd)) = [handleChange k v fd]
   \<and> dispatched (handleSubmit_part_000 ap (handleChange_part_000 k v fd)) =
       [processedFormData (handleChange_part_000 k v fd)]"
  by (simp add: map_of_handleChange map_of_handleChange_part_000 dispatched_handleSubmit
      dispatched_handleSubmit_part_000)



section \<open>Failures of the service call\<close>

text \<open>
  Claim C5, as stated: when the service answers with a non-success status, the message
  of the error is the \<^verbatim>\<open>detail\<close> string of the body when the body has one, and the
  fallback when it has none. The code writes \<^verbatim>\<open>error.response.data.detail || fallback\<close>.
  The empty string is falsy: a body whose \<^verbatim>\<open>detail\<close> is the empty string gives the
  fallback, not that string. And the body is read with no check: a body that is \<^verbatim>\<open>null\<close>
  has no \<^verbatim>\<open>detail\<close>, and gives the message of a \<^verbatim>\<open>TypeError\<close>, not the fallback.
\<close>

theorem empty_detail_counterexample:
  "snd (evaluateWaterQuality service_empty_detail []) =
     Inl ''An error occurred while evaluating water quality.''
   \<and> snd (evaluateWaterQuality service_empty_detail []) \<noteq> Inl []
   \<and> error (submit_event service_empty_detail initial_state) =
     ''An error occurred while evaluating water quality.''
   \<and> snd (evaluateWaterQuality service_null_body []) = Inl null_body_message
   \<and> snd (evaluateWaterQuality service_null_body []) \<noteq>
     Inl ''An error occurred while evaluating water quality.''
   \<and> error (submit_event service_null_body initial_state) = null_body_message"
  by (simp add: evaluateWaterQuality_def service_empty_detail_def service_null_body_def
      null_body_message_def submit_event_def handleSubmit_def run_effects_def
      initial_state_def)

text \<open>
  Claim C5, amended: when the service answers with a non-success status and a body that
  is not \<^verbatim>\<open>null\<close> or \<^verbatim>\<open>undefined\<close>, the message of the error, and the error state of the
  form after the submission, is the \<^verbatim>\<open>detail\<close> string of the body when the body has a
  non-empty one (\<^verbatim>\<open>Invalid pH value\<close> for the 422 response of the specification), and
  the fallback \<^verbatim>\<open>An error occurred while evaluating water quality.\<close> when the body has no
  \<^verbatim>\<open>detail\<close> or an empty one. (What a body that is \<^verbatim>\<open>null\<close> or \<^verbatim>\<open>undefined\<close> gives is
  left open here.)
\<close>

theorem service_error_message:
  assumes "ap (formData s) = Rejected e" and "response e = Some resp"
    and "body resp = Body d"
  shows "(d = Some (DetailString m) \<and> m \<noteq> [] \<longrightarrow>
            snd (evaluateWaterQuality ap (formData s)) = Inl m
            \<and> error (submit_event ap s) = m)
       \<and> (d = None \<or> d = Some (DetailString []) \<longrightarrow>
            snd (evaluateWaterQuality ap (formData s)) =
              Inl ''An error occurred while evaluating water quality.''
            \<and> error (submit_event ap s) =
              ''An error occurred while evaluating water quality.'')"
proof -
  have msg: "failure_message e = class_message ServiceError (Body d)"
    using assms(2,3) by (simp add: failure_message_def classify_def service_body_def)
  have st: "error (submit_event ap s) = failure_message e"
    using assms(1) by (simp add: submit_event_Rejected)
  have ev: "snd (evaluateWaterQuality ap (formData s)) = Inl (failure_message e)"
    using assms(1) by (simp add: evaluateWaterQuality_Rejected [of ap "formData s" e])
  show ?thesis
    by (auto simp: st ev msg)
qed

text \<open>
  The amended claim C5 on the 422 response with \<^verbatim>\<open>{detail: "Invalid pH value"}\<close> and on a
  500 response with no \<^verbatim>\<open>detail\<close>.
\<close>

theorem service_error_message_witness:
  "snd (evaluateWaterQuality service_422 (formData initial_state)) = Inl ''Invalid pH value''
   \<and> error (submit_event service_422 initial_state) = ''Invalid pH value''
   \<and> snd (evaluateWaterQuality service_500 (formData initial_state)) =
       Inl ''An error occurred while evaluating water quality.''
   \<and> error (submit_event service_500 initial_state) =
       ''An error occurred while evaluating water quality.''"
proof -
  have a1: "service_422 (formData initial_state) =
      Rejected \<lparr>response = Some \<lparr>status = 422,
                                body = Body (Some (DetailString ''Invalid pH value''))\<rparr>,
                request = True\<rparr>"
    by (simp add: service_422_def)
  have a2: "service_500 (formData initial_state) =
      Rejected \<lparr>response = Some \<lparr>status = 500, body = Body None\<rparr>, request = True\<rparr>"
    by (simp add: service_500_def)
  show ?thesis
    using service_error_message [of service_422 initial_state
        "\<lparr>response = Some \<lparr>status = 422,
                            body = Body (Some (DetailString ''Invalid pH value''))\<rparr>,
          request = True\<rparr>"
        "\<lparr>status = 422, body = Body (Some (DetailString ''Invalid pH value''))\<rparr>"
        "Some (DetailString ''Invalid pH value'')" "''Invalid pH value''"]
      service_error_message [of service_500 initial_state
        "\<lparr>response = Some \<lparr>status = 500, body = Body None\<rparr>, request = True\<rparr>"
        "\<lparr>status = 500, body = Body None\<rparr>" "None" "[]"]
    by (simp add: a1 a2)
qed

text \<open>
  Claim C6: when the request was sent and no response came, the message of the error,
  and the error state of the form after the submission, is
  \<^verbatim>\<open>The server did not respond. Please check your connection.\<close>
\<close>

theorem no_response_message:
  assumes "ap (formData s) = Rejected e" and "response e = None" and "request e"
  shows "snd (evaluateWaterQuality ap (formData s)) =
           Inl ''The server did not respond. Please check your connection.''
       \<and> error (submit_event ap s) =
           ''The server did not respond. Please check your connection.''"
proof -
  have msg: "failure_message e = ''The server did not respond. Please check your connection.''"
    using assms(2,3) by (simp add: failure_message_def classify_def)
  have st: "error (submit_event ap s) = failure_message e"
    using assms(1) by (simp add: submit_event_Rejected)
  have ev: "snd (evaluateWaterQuality ap (formData s)) = Inl (failure_message e)"
    using assms(1) by (simp add: evaluateWaterQuality_Rejected [of ap "formData s" e])
  show ?thesis
    by (simp add: st ev msg)
qed

text \<open>Claim C6 on a dropped connection, from the initial state of the form.\<close>

theorem no_response_message_witness:
  "snd (evaluateWaterQuality network_drop (formData initial_state)) =
     Inl ''The server did not respond. Please check your connection.''
   \<and> error (submit_event network_drop initial_state) =
     ''The server did not respond. Please check your connection.''"
proof -
  have a: "network_drop (formData initial_state) = Rejected \<lparr>response = None, request = True\<rparr>"
    by (simp add: network_drop_def)
  show ?thesis
    using no_response_message [of network_drop initial_state
        "\<lparr>response = None, request = True\<rparr>"]
    by (simp add: a)
qed

text \<open>
  Claim C7: a failure of the call falls in exactly one of the three classes, decided in
  the order service error, no response, request setup failure; it is thrown as one error
  with one message, that of its class; and the call is made once, with no retry, in
  \<^verbatim>\<open>evaluateWaterQuality\<close> and in \<^verbatim>\<open>handleSubmit\<close>.
\<close>

theorem failure_classified_in_priority_order:
  assumes "ap d = Rejected e"
  shows "evaluateWaterQuality ap d =
           ([AxiosPost d, ConsoleError e], Inl (class_message (classify e) (service_body e)))
       \<and> dispatched (fst (evaluateWaterQuality ap d)) = [d]
       \<and> dispatched (handleSubmit ap d) = [d]"
  using assms
  by (simp add: evaluateWaterQuality_Rejected [of ap d e] failure_message_def
      dispatched_handleSubmit)

text \<open>
  Claim C7 on the three kinds of failure. The 422 response comes with
  \<^verbatim>\<open>error.request\<close> set as well, and is a service error: the first class wins. So is
  the response with a \<^verbatim>\<open>null\<close> body: one error, with the one message of the
  \<^verbatim>\<open>TypeError\<close>.
\<close>

theorem failure_classified_in_priority_order_witness:
  "evaluateWaterQuality service_422 [] =
     ([AxiosPost [],
       ConsoleError
         \<lparr>response = Some \<lparr>status = 422,
                             body = Body (Some (DetailString ''Invalid pH value''))\<rparr>,
           request = True\<rparr>],
      Inl ''Invalid pH value'')
   \<and> evaluateWaterQuality service_null_body [] =
     ([AxiosPost [],
       ConsoleError
         \<lparr>response = Some \<lparr>status = 500, body = NullishBody null_body_message\<rparr>,
           request = True\<rparr>],
      Inl null_body_message)
   \<and> evaluateWaterQuality network_drop [] =
     ([AxiosPost [], ConsoleError \<lparr>response = None, request = True\<rparr>],
      Inl ''The server did not respond. Please check your connection.'')
   \<and> evaluateWaterQuality setup_failure [] =
     ([AxiosPost [], ConsoleError \<lparr>response = None, request = False\<rparr>],
      Inl ''An error occurred while setting up the request.'')
   \<and> dispatched (handleSubmit network_drop []) = [[]]"
  using failure_classified_in_priority_order [of service_422 "[]"
      "\<lparr>response = Some \<lparr>status = 422,
                          body = Body (Some (DetailString ''Invalid pH value''))\<rparr>,
        request = True\<rparr>"]
    failure_classified_in_priority_order [of service_null_body "[]"
      "\<lparr>response = Some \<lparr>status = 500, body = NullishBody null_body_message\<rparr>,
        request = True\<rparr>"]
    failure_classified_in_priority_order [of network_drop "[]"
      "\<lparr>response = None, request = True\<rparr>"]
    failure_classified_in_priority_order [of setup_failure "[]"
      "\<lparr>response = None, request = False\<rparr>"]
  by (simp add: service_422_def service_null_body_def network_drop_def setup_failure_def
      classify_def service_body_def)

section \<open>The states of a submission\<close>

text \<open>
  Claim C8: a submission first sets the loading flag and clears the error state; its
  last effect clears the loading flag, whatever the outcome. When the call succeeds the
  result is handed to \<^verbatim>\<open>onResult\<close> before that; when it fails the error state is set to
  the message of the failure before that.
\<close>

theorem submit_sets_and_clears_loading:
  "take 2 (handleSubmit ap (formData s)) = [SetLoading True, SetError []]
   \<and> run_effects s (take 2 (handleSubmit ap (formData s))) = s\<lparr>error := [], loading := True\<rparr>
   \<and> loading (submit_event ap s) = False
   \<and> (ap (formData s) = Resolved r \<longrightarrow>
        handleSubmit ap (formData s) =
          [SetLoading True, SetError [], AxiosPost (formData s), OnResult r, SetLoading False]
        \<and> submit_event ap s = s\<lparr>error := [], evaluationResult := Some r, loading := False\<rparr>)
   \<and> (ap (formData s) = Rejected e \<longrightarrow>
        snd (evaluateWaterQuality ap (formData s)) = Inl (failure_message e)
        \<and> handleSubmit ap (formData s) =
          [SetLoading True, SetError [], AxiosPost (formData s), ConsoleError e,
           SetError (failure_message e), SetLoading False]
        \<and> submit_event ap s = s\<lparr>error := failure_message e, loading := False\<rparr>)"
proof -
  have start: "take 2 (handleSubmit ap (formData s)) = [SetLoading True, SetError []]"
    by (simp add: handleSubmit_def)
  have fin: "loading (submit_event ap s) = False"
  proof (cases "ap (formData s)")
    case (Resolved r')
    then show ?thesis by (simp add: submit_event_Resolved)
  next
    case (Rejected e')
    then show ?thesis by (simp add: submit_event_Rejected)
  qed
  have ok: "ap (formData s) = Resolved r \<longrightarrow>
        handleSubmit ap (formData s) =
          [SetLoading True, SetError [], AxiosPost (formData s), OnResult r, SetLoading False]
        \<and> submit_event ap s = s\<lparr>error := [], evaluationResult := Some r, loading := False\<rparr>"
    by (simp add: submit_event_Resolved handleSubmit_Resolved [of ap "formData s" r])
  have ko: "ap (formData s) = Rejected e \<longrightarrow>
        snd (evaluateWaterQuality ap (formData s)) = Inl (failure_message e)
        \<and> handleSubmit ap (formData s) =
          [SetLoading True, SetError [], AxiosPost (formData s), ConsoleError e,
           SetError (failure_message e), SetLoading False]
        \<and> submit_event ap s = s\<lparr>error := failure_message e, loading := False\<rparr>"
    by (simp add: submit_event_Rejected handleSubmit_Rejected [of ap "formData s" e]
        evaluateWaterQuality_Rejected [of ap "formData s" e])
  from start fin ok ko show ?thesis
    by (simp add: run_effects_def)
qed

text \<open>
  Claim C8 on a form in which an earlier failure has left a message: one submission
  that succeeds and one that meets a dropped connection.
\<close>

theorem submit_sets_and_clears_loading_witness:
  "run_effects (initial_state\<lparr>error := ''old''\<rparr>)
      (take 2 (handleSubmit service_ok [])) =
     \<lparr>formData = [], error = [], loading = True, evaluationResult = None\<rparr>
   \<and> submit_event service_ok (initial_state\<lparr>error := ''old''\<rparr>) =
     \<lparr>formData = [], error = [], loading = False, evaluationResult = Some example_result\<rparr>
   \<and> submit_event network_drop (initial_state\<lparr>error := ''old''\<rparr>) =
     \<lparr>formData = [],
      error = ''The server did not respond. Please check your connection.'',
      loading = False, evaluationResult = None\<rparr>"
  using submit_sets_and_clears_loading [of service_ok "initial_state\<lparr>error := ''old''\<rparr>"
      example_result "\<lparr>response = None, request = True\<rparr>"]
    submit_sets_and_clears_loading [of network_drop "initial_state\<lparr>error := ''old''\<rparr>"
      example_result "\<lparr>response = None, request = True\<rparr>"]
  by (simp add: initial_state_def service_ok_def network_drop_def failure_message_def
      classify_def service_body_def run_effects_def)

text \<open>
  Claim C10: a submission that fails leaves the result held by the application as it
  was; it changes the error state and the loading flag only, and does not call
  \<^verbatim>\<open>onResult\<close>. So a result delivered by an earlier submission stays.
\<close>

theorem failure_keeps_previous_result:
  assumes "ap (formData s) = Rejected e"
  shows "evaluationResult (submit_event ap s) = evaluationResult s
       \<and> delivered (handleSubmit ap (formData s)) = []
       \<and> submit_event ap s = s\<lparr>error := failure_message e, loading := False\<rparr>"
  using assms
  by (simp add: submit_event_Rejected handleSubmit_Rejected [of ap "formData s" e])

text \<open>
  Claim C10 on a submission that succeeds, followed by one that meets a dropped
  connection: the first result is still there, beside the message.
\<close>

theorem failure_keeps_previous_result_witness:
  "evaluationResult (submit_event service_ok initial_state) = Some example_result
   \<and> evaluationResult (submit_event network_drop (submit_event service_ok initial_state)) =
       Some example_result
   \<and> error (submit_event network_drop (submit_event service_ok initial_state)) =
       ''The server did not respond. Please check your connection.''
   \<and> delivered (handleSubmit network_drop
        (formData (submit_event service_ok initial_state))) = []"
proof -
  have ok: "service_ok (formData initial_state) = Resolved example_result"
    by (simp add: service_ok_def)
  have s1: "submit_event service_ok initial_state =
      initial_state\<lparr>error := [], evaluationResult := Some example_result, loading := False\<rparr>"
    using ok by (rule submit_event_Resolved)
  have ko: "network_drop (formData (submit_event service_ok initial_state)) =
      Rejected \<lparr>response = None, request = True\<rparr>"
    by (simp add: network_drop_def)
  have msg: "failure_message \<lparr>response = None, request = True\<rparr> =
      ''The server did not respond. Please check your connection.''"
    by (simp add: failure_message_def classify_def)
  have first: "evaluationResult (submit_event service_ok initial_state) = Some example_result"
    by (simp add: s1)
  note kept = failure_keeps_previous_result [of network_drop
      "submit_event service_ok initial_state" "\<lparr>response = None, request = True\<rparr>", OF ko]
  from kept have "error (submit_event network_drop (submit_event service_ok initial_state)) =
      ''The server did not respond. Please check your connection.''"
    by (simp add: msg)
  with kept first show ?thesis
    by simp
qed

section \<open>The parameter list of the form\<close>

text \<open>
  Claim C9: the parameter list is the list of fifteen definitions with the keys
  Temperature, pH, Turbidity, DissolvedOxygen, Conductivity, TotalDissolvedSolids,
  Nitrate, Phosphate, TotalColiforms, Ecoli, BOD, COD, Hardness, Alkalinity, Iron, in
  this order, in every revision; the keys are pairwise distinct. The list is a constant:
  it is no part of the state the operations act on.
\<close>

theorem parameters_keys:
  "map name parameters =
     [''Temperature'', ''pH'', ''Turbidity'', ''DissolvedOxygen'', ''Conductivity'',
      ''TotalDissolvedSolids'', ''Nitrate'', ''Phosphate'', ''TotalColiforms'', ''Ecoli'',
      ''BOD'', ''COD'', ''Hardness'', ''Alkalinity'', ''Iron'']
   \<and> length parameters = 15
   \<and> distinct (map name parameters)
   \<and> map name parameters_part_000 = map name parameters
   \<and> map label parameters_part_000 = map label parameters
   \<and> map name parameters_part_000_text = map name parameters
   \<and> map label parameters_part_000_text = map label parameters"
  by (simp add: parameters_def parameters_part_000_def parameters_part_000_text_def)

end
